theory Spec2Isabelle
  imports Main
begin

section \<open>JavaScript values\<close>

text \<open>
  Request bodies are parsed JSON. Numbers are modelled as integers (the only numeric
  fields read are the viewport sizes \<open>vw\<close> and \<open>vh\<close>). Strings are lists of
  8-bit characters, so code units above 255 are not represented.
\<close>

datatype json =
    JUndefined
  | JNull
  | JBool bool
  | JNum int
  | JStr string
  | JArr "json list"
  | JObj "(string \<times> json) list"

text \<open>Truthiness, as used by \<open>!x\<close>, \<open>x || y\<close>, \<open>x ? a : b\<close> and \<open>if (x)\<close>.\<close>

fun truthy :: "json \<Rightarrow> bool" where
  "truthy JUndefined = False"
| "truthy JNull = False"
| "truthy (JBool b) = b"
| "truthy (JNum n) = (n \<noteq> 0)"
| "truthy (JStr s) = (s \<noteq> [])"
| "truthy (JArr xs) = True"
| "truthy (JObj kvs) = True"

text \<open>
  Destructuring \<open>const { k } = v\<close> throws a TypeError when \<open>v\<close> is \<open>null\<close> or
  \<open>undefined\<close>; on any other value it reads property \<open>k\<close>. Of the property names
  read here only an object can have one; a repeated key of a parsed object keeps its
  last value.
\<close>

fun nullish :: "json \<Rightarrow> bool" where
  "nullish JUndefined = True"
| "nullish JNull = True"
| "nullish v = False"

fun get_prop :: "json \<Rightarrow> string \<Rightarrow> json" where
  "get_prop (JObj kvs) k = (case map_of (rev kvs) k of Some v \<Rightarrow> v | None \<Rightarrow> JUndefined)"
| "get_prop v k = JUndefined"

text \<open>
  Writing a value into a template literal converts it to a string. That throws a
  TypeError for an object with a property \<open>toString\<close> of its own (no parsed value
  is callable, and the inherited \<open>valueOf\<close> returns the object), and for an array
  that holds such a value, since an array is converted by joining the strings of its
  elements.
\<close>

fun to_string_throws :: "json \<Rightarrow> bool" where
  "to_string_throws (JObj kvs) = (''toString'' \<in> set (map fst kvs))"
| "to_string_throws (JArr xs) = list_ex to_string_throws xs"
| "to_string_throws v = False"

text \<open>The result of \<open>parseInt\<close>: an integer or \<open>NaN\<close>; every comparison with \<open>NaN\<close> is false.\<close>

datatype js_number = NaN | Num int

fun js_gt :: "js_number \<Rightarrow> js_number \<Rightarrow> bool" where
  "js_gt (Num a) (Num b) = (a > b)"
| "js_gt a b = False"

fun js_times :: "js_number \<Rightarrow> js_number \<Rightarrow> js_number" where
  "js_times (Num a) (Num b) = Num (a * b)"
| "js_times a b = NaN"

section \<open>Strings and the data-URI pattern\<close>

definition startsWith :: "string \<Rightarrow> string \<Rightarrow> bool" where
  "startsWith s p = (take (length p) s = p)"

fun js_includes :: "string \<Rightarrow> string \<Rightarrow> bool" where
  "js_includes [] sub = (sub = [])"
| "js_includes (c # cs) sub = (startsWith (c # cs) sub \<or> js_includes cs sub)"

text \<open>
  The fragment of regular expressions the source uses: a pattern anchored at both ends
  (\<open>^ ... $\<close>, no flags) that is a sequence of literal texts and capturing groups
  \<open>(C+)\<close> over a character class \<open>C\<close>. A group is greedy: it first takes the longest
  run and gives characters back one at a time while the rest of the pattern fails.
\<close>

datatype rx_atom = Lit string | Group_plus "char \<Rightarrow> bool"

fun backtrack :: "(string \<Rightarrow> string list option) \<Rightarrow> string \<Rightarrow> nat \<Rightarrow> string list option" where
  "backtrack cont s 0 = None"
| "backtrack cont s (Suc k) =
     (case cont (drop (Suc k) s) of
        Some caps \<Rightarrow> Some (take (Suc k) s # caps)
      | None \<Rightarrow> backtrack cont s k)"

primrec rx_groups :: "rx_atom list \<Rightarrow> string \<Rightarrow> string list option" where
  "rx_groups [] s = (if s = [] then Some [] else None)"
| "rx_groups (a # r) s =
     (case a of
        Lit l \<Rightarrow> if startsWith s l then rx_groups r (drop (length l) s) else None
      | Group_plus C \<Rightarrow> backtrack (rx_groups r) s (length (takeWhile C s)))"

text \<open>\<open>s.match(re)\<close> for a pattern without the global flag: \<open>null\<close>, or the array of the
  whole match followed by the captured groups.\<close>

definition js_match :: "string \<Rightarrow> rx_atom list \<Rightarrow> string list option" where
  "js_match s re = map_option (\<lambda>caps. s # caps) (rx_groups re s)"

text \<open>The class \<open>[A-Za-z-+/]\<close>.\<close>

definition mime_class :: "char \<Rightarrow> bool" where
  "mime_class c =
     (let n = (of_char c :: nat) in
        (of_char CHR ''A'' \<le> n \<and> n \<le> of_char CHR ''Z'')
      \<or> (of_char CHR ''a'' \<le> n \<and> n \<le> of_char CHR ''z'')
      \<or> c = CHR ''-'' \<or> c = CHR ''+'' \<or> c = CHR ''/'')"

text \<open>The class \<open>.\<close>: any character but a line terminator (of which line feed and
  carriage return are 8-bit characters).\<close>

definition dot_class :: "char \<Rightarrow> bool" where
  "dot_class c = (c \<noteq> CHR 0x0A \<and> c \<noteq> CHR 0x0D)"

text \<open>\<^verbatim>\<open>/^data:([A-Za-z-+/]+);base64,(.+)$/\<close>\<close>

definition data_uri_regex :: "rx_atom list" where
  "data_uri_regex =
     [Lit ''data:'', Group_plus mime_class, Lit '';base64,'', Group_plus dot_class]"

section \<open>The session and the outside world\<close>

text \<open>
  An error object with its message; \<open>TypeError\<close> is an error raised by the language
  itself, whose message is never inspected.
\<close>

datatype js_error = Error string | TypeError

datatype media =
    MessageMedia string string  \<comment> \<open>\<open>new MessageMedia(mimeType, data)\<close>\<close>
  | FileMedia string            \<comment> \<open>\<open>MessageMedia.fromFilePath(path)\<close>\<close>
  | UrlMedia json               \<comment> \<open>\<open>MessageMedia.fromUrl(url)\<close>\<close>

datatype content = Text json | Media media

datatype options =
    NoOptions       \<comment> \<open>no options argument, or the default \<open>{}\<close>\<close>
  | Caption json    \<comment> \<open>\<open>{ caption: captionText, sendVideoAsGif: false }\<close>\<close>

text \<open>
  What one look at the session object shows. The session is an external, stateful
  object: a call to \<open>sendMessage\<close> resolves to a message (named by a string) or rejects
  with an error object carrying a message; \<open>refreshState\<close> may be absent (\<open>None\<close>),
  and when present resolves (\<open>Some None\<close>) or rejects (\<open>Some (Some m)\<close>).
\<close>

record client_view =
  info :: bool
  pupPage :: bool
  pupBrowser :: bool
  sendMessage :: "json \<Rightarrow> content \<Rightarrow> options \<Rightarrow> string + string"
  refreshState :: "string option option"

record render_request =
  htmlContent :: json
  width :: json
  height :: json

datatype sleep_site =
    Settle     \<comment> \<open>the 2000 ms wait before each send\<close>
  | Backoff    \<comment> \<open>the wait after a retryable failure\<close>
  | Cooldown   \<comment> \<open>the extra wait after a WidFactory failure of an item\<close>
  | Throttle   \<comment> \<open>the wait between two messages of a batch\<close>

datatype reply =
    GroupIdRequired              \<comment> \<open>'Group ID is required'\<close>
  | ContentRequired              \<comment> \<open>'At least one of message, mediaContent, or html must be provided'\<close>
  | ClientNotReady               \<comment> \<open>'WhatsApp client is not ready yet. Please try again later.'\<close>
  | HtmlConversionFailed js_error  \<comment> \<open>'Failed to convert HTML to image'\<close>
  | InvalidMediaType             \<comment> \<open>'Invalid mediaType. Supported types: base64, url'\<close>
  | MediaProcessingFailed js_error \<comment> \<open>'Failed to process media content'\<close>
  | MessageSent json             \<comment> \<open>'Message sent successfully'\<close>
  | SendFailed js_error          \<comment> \<open>'Failed to send message'\<close>
  | MustBeArray                  \<comment> \<open>'The messages parameter must be an array'\<close>
  | EmptyArray                   \<comment> \<open>'The messages array cannot be empty'\<close>
  | BatchTooLarge js_number      \<comment> \<open>'Batch size exceeds maximum allowed (...)'\<close>
  | Accepted nat js_number       \<comment> \<open>'Processing ... messages sequentially with ...ms delay between each'\<close>
  | Health string                \<comment> \<open>service 'whatsapp-webhook' with its status\<close>

record response =
  status :: nat
  success :: bool
  message :: reply

datatype log =
    AttemptFailed nat nat string       \<comment> \<open>'Attempt a/MAX failed:' with the message\<close>
  | WaitingRetry nat                   \<comment> \<open>'Waiting ...ms before retry...'\<close>
  | RefreshFailed string               \<comment> \<open>'Failed to refresh client state:'\<close>
  | ClientUndefined                    \<comment> \<open>'WhatsApp client is undefined. ...'\<close>
  | RenderSaved string                 \<comment> \<open>'HTML converted to image and saved at: ...'\<close>
  | RenderError                        \<comment> \<open>'Error converting HTML to image:' (in htmlToImage)\<close>
  | HtmlConverted string               \<comment> \<open>'HTML converted to image: ...'\<close>
  | InvalidMessages                    \<comment> \<open>'Invalid messages parameter:'\<close>
  | EmptyMessages                      \<comment> \<open>'Empty messages array'\<close>
  | BatchSizeExceeded nat              \<comment> \<open>'Batch size exceeds maximum allowed:'\<close>
  | ClientNotReadyLog                  \<comment> \<open>'WhatsApp client is not ready'\<close>
  | MissingGroupId nat nat             \<comment> \<open>'Message i/n missing groupId'\<close>
  | MissingContent nat nat             \<comment> \<open>'Message i/n missing content for group ...'\<close>
  | HtmlError nat nat                  \<comment> \<open>'Error converting HTML to image for message i/n:'\<close>
  | InvalidMediaTypeLog nat nat        \<comment> \<open>'Invalid mediaType for message i/n, ...'\<close>
  | MediaError nat nat                 \<comment> \<open>'Error processing media content for message i/n:'\<close>
  | MediaMessageSent nat nat           \<comment> \<open>'Message i/n with media sent to ...'\<close>
  | TextMessageSent nat nat            \<comment> \<open>'Text message i/n sent to ...'\<close>
  | AllRetriesFailed nat nat           \<comment> \<open>'All retries failed for message i/n:'\<close>
  | IncreasingDelay                    \<comment> \<open>'Increasing delay to ensure client stabilizes...'\<close>
  | WaitingNext js_number              \<comment> \<open>'Waiting ...ms before processing next message...'\<close>
  | Progress nat nat nat nat           \<comment> \<open>'Batch progress: i/n messages processed (s successful, f failed)'\<close>
  | UnexpectedError nat nat            \<comment> \<open>'Unexpected error processing message i/n:'\<close>
  | BatchCompleted nat nat             \<comment> \<open>'Batch processing completed: s successful, f failed'\<close>
  | ConsoleError                       \<comment> \<open>\<open>console.log(error)\<close>\<close>
  | FatalError                         \<comment> \<open>'Fatal error in batch processing:'\<close>
  | ConsoleLog string string           \<comment> \<open>\<open>console.log(filePath, fileName)\<close>\<close>
  | SingleHtmlError                    \<comment> \<open>'Error converting HTML to image:' (single message)\<close>
  | SingleMediaError                   \<comment> \<open>'Error processing media content:'\<close>
  | SingleMediaSent                    \<comment> \<open>'Message with media sent to ...'\<close>
  | SingleTextSent                     \<comment> \<open>'Text message sent to ...'\<close>
  | SingleSendError                    \<comment> \<open>'Error sending message via webhook:'\<close>

text \<open>What the program does to the outside, in the order it does it.\<close>

datatype event =
    Respond response
  | Log log
  | Sleep sleep_site js_number
  | Render render_request
  | FromFilePath string
  | FromUrl json
  | SendMessage json content options
  | RefreshState

section \<open>The retry policy\<close>

definition MAX_RETRIES :: nat where
  "MAX_RETRIES = 3"

text \<open>The body of the \<open>try\<close> block: one attempt.\<close>

definition attempt_send ::
  "client_view \<Rightarrow> json \<Rightarrow> content \<Rightarrow> options \<Rightarrow> (string + string) \<times> event list" where
  "attempt_send client groupId content opts =
     (if \<not> pupPage client \<or> \<not> pupBrowser client
      then (Inl ''WhatsApp client not fully initialized'', [])
      else (sendMessage client groupId content opts,
            [Sleep Settle (Num 2000), SendMessage groupId content opts]))"

definition is_transient :: "string \<Rightarrow> bool" where
  "is_transient msg =
     (js_includes msg ''WidFactory'' \<or> js_includes msg ''undefined''
      \<or> js_includes msg ''not fully initialized'')"

text \<open>The inner \<open>try\<close> around the state refresh: its failure is logged and dropped.\<close>

definition refresh :: "client_view \<Rightarrow> event list" where
  "refresh client =
     (case refreshState client of
        None \<Rightarrow> []
      | Some None \<Rightarrow> [RefreshState]
      | Some (Some m) \<Rightarrow> [RefreshState, Log (RefreshFailed m)])"

text \<open>
  The \<open>for\<close> loop from \<open>attempt\<close> on. The session is looked at once per attempt.
  \<open>lastError\<close> is \<open>null\<close> (\<open>None\<close>) at first and then the error caught last, kept by
  its message; leaving the loop throws it (\<open>Inl\<close>).
\<close>

function retry_loop ::
  "(nat \<Rightarrow> client_view) \<Rightarrow> json \<Rightarrow> content \<Rightarrow> options \<Rightarrow> nat \<Rightarrow> string option
   \<Rightarrow> (string option + string) \<times> event list" where
  "retry_loop client groupId content opts attempt lastError =
     (if attempt \<le> MAX_RETRIES then
        (case attempt_send (client attempt) groupId content opts of
           (Inr result, evs) \<Rightarrow> (Inr result, evs)
         | (Inl msg, evs) \<Rightarrow>
             (let warned = evs @ [Log (AttemptFailed attempt MAX_RETRIES msg)] in
              if is_transient msg then
                (let retryDelay = 2 ^ attempt * 3000;
                     waited = warned @ [Log (WaitingRetry retryDelay),
                                        Sleep Backoff (Num (int retryDelay))]
                                     @ refresh (client attempt);
                     (res, rest) = retry_loop client groupId content opts (attempt + 1)
                                     (Some msg)
                 in (res, waited @ rest))
              else (Inl (Some msg), warned)))
      else (Inl lastError, []))"
  by pat_completeness auto
termination
  by (relation "measure (\<lambda>(client, groupId, content, opts, attempt, lastError).
        Suc MAX_RETRIES - attempt)") auto

definition sendMessageWithRetry ::
  "(nat \<Rightarrow> client_view) \<Rightarrow> json \<Rightarrow> content \<Rightarrow> options
   \<Rightarrow> (string option + string) \<times> event list" where
  "sendMessageWithRetry client groupId content opts =
     retry_loop client groupId content opts 1 None"

section \<open>The session handle\<close>

text \<open>
  The session object, as the handlers see it over time: \<open>client i a\<close> is what it shows
  while item \<open>i\<close> of a batch is at attempt \<open>a\<close>. A request that is not a batch looks
  at \<open>client 0 0\<close>.
\<close>

type_synonym client = "nat \<Rightarrow> nat \<Rightarrow> client_view"

text \<open>
  The module holding the handle: its variable \<open>whatsappClient\<close>, and the property
  \<open>whatsappClient\<close> of the object it exports, which is the value the variable had
  when the module was loaded. The router's own \<open>whatsappClient\<close> is that property.
\<close>

record whatsappclient_module =
  whatsappClient :: "client option"
  exported_whatsappClient :: "client option"

definition module_loaded :: whatsappclient_module where
  "module_loaded = \<lparr> whatsappClient = None, exported_whatsappClient = None \<rparr>"

definition setWhatsAppClient :: "client \<Rightarrow> whatsappclient_module \<Rightarrow> whatsappclient_module" where
  "setWhatsAppClient c m = m \<lparr> whatsappClient := Some c \<rparr>"

definition getWhatsAppClient :: "whatsappclient_module \<Rightarrow> client option \<times> event list" where
  "getWhatsAppClient m =
     (whatsappClient m, if whatsappClient m = None then [Log ClientUndefined] else [])"

section \<open>The health endpoint\<close>

definition get_health :: "whatsappclient_module \<Rightarrow> response" where
  "get_health m =
     \<lparr> status = 200, success = True,
       message = Health
         (if (case exported_whatsappClient m of None \<Rightarrow> False | Some c \<Rightarrow> info (c 0 0))
          then ''ready'' else ''initializing'') \<rparr>"

section \<open>Resolving media\<close>

text \<open>
  Rendering, reading a file and fetching a URL are done by others; what they answer
  for item \<open>i\<close> is given by the world: \<open>puppeteer\<close> fails with a message or returns
  the file's path and name; the two media loaders fail with a message or succeed.
\<close>

record world =
  puppeteer :: "nat \<Rightarrow> render_request \<Rightarrow> string + string \<times> string"
  fromFilePath :: "nat \<Rightarrow> string \<Rightarrow> string option"
  fromUrl :: "nat \<Rightarrow> json \<Rightarrow> string option"

definition htmlToImage ::
  "(render_request \<Rightarrow> string + string \<times> string) \<Rightarrow> json
   \<Rightarrow> (js_error + string \<times> string) \<times> event list" where
  "htmlToImage browser arg =
     (if nullish arg then (Inl TypeError, [])
      else
        (let htmlContent = get_prop arg ''htmlContent'';
             vh = get_prop arg ''vh'';
             vw = get_prop arg ''vw'';
             width = (if truthy vw then vw else JNum 800);
             height = (if truthy vh then vh else JNum 800);
             req = \<lparr> htmlContent = htmlContent, width = width, height = height \<rparr>
         in case browser req of
              Inl msg \<Rightarrow> (Inl (Error msg), [Render req, Log RenderError])
            | Inr (filePath, fileName) \<Rightarrow>
                (Inr (filePath, fileName), [Render req, Log (RenderSaved filePath)])))"

text \<open>The base64 branch of the batch endpoint.\<close>

definition base64_media :: "string \<Rightarrow> media" where
  "base64_media mediaContent =
     (let mimeType = ''image/png''; processedContent = mediaContent in
      if startsWith mediaContent ''data:'' then
        (case js_match mediaContent data_uri_regex of
           None \<Rightarrow> MessageMedia mimeType processedContent
         | Some matches \<Rightarrow>
             if length matches = 3 then MessageMedia (matches ! 1) (matches ! 2)
             else MessageMedia mimeType processedContent)
      else MessageMedia mimeType processedContent)"

text \<open>
  The base64 branch of the single-message endpoint. There \<open>mediaContent\<close> is a
  \<open>const\<close>, and the statement \<open>mediaContent = matches[2]\<close> throws a TypeError.
\<close>

definition base64_media_single :: "string \<Rightarrow> js_error + media" where
  "base64_media_single mediaContent =
     (let mimeType = ''image/png'' in
      if startsWith mediaContent ''data:'' then
        (case js_match mediaContent data_uri_regex of
           None \<Rightarrow> Inr (MessageMedia mimeType mediaContent)
         | Some matches \<Rightarrow>
             if length matches = 3 then Inl TypeError
             else Inr (MessageMedia mimeType mediaContent))
      else Inr (MessageMedia mimeType mediaContent))"

text \<open>
  How the loop body gives an item up: \<open>Counted l\<close> is \<open>failureCount++\<close>, the log
  \<open>l\<close> and the next item. \<open>Recounted l\<close> is \<open>failureCount++\<close>, then a throw while
  the line of the log is built, and in the \<open>catch\<close> around it \<open>failureCount++\<close>
  again, that handler's log \<open>l\<close> and the next item.
\<close>

datatype given_up = Counted log | Recounted log

text \<open>
  Media resolution of batch item \<open>i\<close> (of \<open>n\<close>): \<open>Inl u\<close> when the item is given up,
  \<open>Inr media\<close> otherwise. The warning for an invalid media type writes the destination
  and the media type into its line.
\<close>

definition resolve_media ::
  "world \<Rightarrow> nat \<Rightarrow> nat \<Rightarrow> json \<Rightarrow> json \<Rightarrow> json \<Rightarrow> json \<Rightarrow> json \<Rightarrow> json
   \<Rightarrow> (given_up + media option) \<times> event list" where
  "resolve_media w i n groupId html vw vh mediaContent mediaType =
     (if truthy html then
        (case htmlToImage (puppeteer w i)
                (JObj [(''htmlContent'', html), (''vw'', vw), (''vh'', vh)]) of
           (Inl e, evs) \<Rightarrow> (Inl (Counted (HtmlError (i + 1) n)), evs)
         | (Inr (filePath, fileName), evs) \<Rightarrow>
             (let path = ''./'' @ filePath in
              case fromFilePath w i path of
                Some e \<Rightarrow> (Inl (Counted (HtmlError (i + 1) n)), evs @ [FromFilePath path])
              | None \<Rightarrow> (Inr (Some (FileMedia path)),
                          evs @ [FromFilePath path, Log (HtmlConverted fileName)])))
      else if truthy mediaContent \<and> truthy mediaType then
        (if mediaType = JStr ''base64'' then
           (case mediaContent of
              JStr s \<Rightarrow> (Inr (Some (base64_media s)), [])
            | _ \<Rightarrow> (Inl (Counted (MediaError (i + 1) n)), []))
         else if mediaType = JStr ''url'' then
           (case fromUrl w i mediaContent of
              Some e \<Rightarrow> (Inl (Counted (MediaError (i + 1) n)), [FromUrl mediaContent])
            | None \<Rightarrow> (Inr (Some (UrlMedia mediaContent)), [FromUrl mediaContent]))
         else if to_string_throws groupId \<or> to_string_throws mediaType then
           (Inl (Recounted (MediaError (i + 1) n)), [])
         else (Inl (Counted (InvalidMediaTypeLog (i + 1) n)), []))
      else (Inr None, []))"

section \<open>The batch endpoint\<close>

record batch_state =
  successCount :: nat
  failureCount :: nat

definition succeeded :: "batch_state \<Rightarrow> batch_state" where
  "succeeded st = st \<lparr> successCount := successCount st + 1 \<rparr>"

definition failed :: "batch_state \<Rightarrow> batch_state" where
  "failed st = st \<lparr> failureCount := failureCount st + 1 \<rparr>"

text \<open>The end of the loop body after the send: the wait before the next message,
  unless this was the last one, and the progress log.\<close>

definition after_send :: "js_number \<Rightarrow> nat \<Rightarrow> nat \<Rightarrow> batch_state \<Rightarrow> event list" where
  "after_send MESSAGE_DELAY_MS i n st =
     (if i < n - 1 then [Log (WaitingNext MESSAGE_DELAY_MS), Sleep Throttle MESSAGE_DELAY_MS]
      else [])
     @ [Log (Progress (i + 1) n (successCount st) (failureCount st))]"

text \<open>
  The send of item \<open>i\<close> with its \<open>try\<close>/\<open>catch\<close>, and the rest of the loop body.
  The log after a send writes the destination into its line, before
  \<open>successCount++\<close>; when that throws, the \<open>catch\<close> of the send counts a failure,
  and the message of this TypeError does not hold "WidFactory". Were
  \<open>sendMessageWithRetry\<close> to throw \<open>null\<close>, reading its message in the handler would
  throw in turn, into the \<open>catch\<close> of the whole loop body.
\<close>

definition send_item ::
  "(nat \<Rightarrow> client_view) \<Rightarrow> js_number \<Rightarrow> nat \<Rightarrow> nat \<Rightarrow> json \<Rightarrow> json \<Rightarrow> media option
   \<Rightarrow> batch_state \<Rightarrow> batch_state \<times> event list" where
  "send_item client MESSAGE_DELAY_MS i n groupId captionText media st =
     (let (content, opts, sent) =
            (case media of
               Some m \<Rightarrow> (Media m, Caption captionText, MediaMessageSent (i + 1) n)
             | None \<Rightarrow> (Text captionText, NoOptions, TextMessageSent (i + 1) n))
      in case sendMessageWithRetry client groupId content opts of
           (Inr result, evs) \<Rightarrow>
             if to_string_throws groupId then
               (let st' = failed st
                in (st', evs @ [Log (AllRetriesFailed (i + 1) n)]
                      @ after_send MESSAGE_DELAY_MS i n st'))
             else
               (let st' = succeeded st
                in (st', evs @ [Log sent] @ after_send MESSAGE_DELAY_MS i n st'))
         | (Inl (Some msg), evs) \<Rightarrow>
             (let st' = failed st
              in (st', evs @ [Log (AllRetriesFailed (i + 1) n)]
                    @ (if js_includes msg ''WidFactory''
                       then [Log IncreasingDelay,
                             Sleep Cooldown (js_times MESSAGE_DELAY_MS (Num 2))]
                       else [])
                    @ after_send MESSAGE_DELAY_MS i n st'))
         | (Inl None, evs) \<Rightarrow>
             (failed (failed st),
              evs @ [Log (AllRetriesFailed (i + 1) n), Log (UnexpectedError (i + 1) n)]))"

text \<open>
  Validation and media resolution of item \<open>i\<close>: \<open>Inl u\<close> when the item is given up,
  and \<open>Inr (groupId, captionText, media)\<close> when it goes on to be sent. Destructuring
  \<open>null\<close> throws before anything is counted, into the \<open>catch\<close> of the loop body; the
  warning for missing content writes the destination into its line.
\<close>

definition prepare_message ::
  "world \<Rightarrow> nat \<Rightarrow> nat \<Rightarrow> json
   \<Rightarrow> (given_up + json \<times> json \<times> media option) \<times> event list" where
  "prepare_message w i n messageData =
     (if nullish messageData then (Inl (Counted (UnexpectedError (i + 1) n)), [])
      else
        (let groupId = get_prop messageData ''groupId'';
             message = get_prop messageData ''message'';
             mediaType = get_prop messageData ''mediaType'';
             mediaContent = get_prop messageData ''mediaContent'';
             html = get_prop messageData ''html'';
             vh = get_prop messageData ''vh'';
             vw = get_prop messageData ''vw''
         in if \<not> truthy groupId then (Inl (Counted (MissingGroupId (i + 1) n)), [])
            else if \<not> truthy message \<and> \<not> truthy mediaContent \<and> \<not> truthy html
            then (if to_string_throws groupId
                  then (Inl (Recounted (UnexpectedError (i + 1) n)), [])
                  else (Inl (Counted (MissingContent (i + 1) n)), []))
            else
              (let captionText = (if truthy message then message else JStr [])
               in case resolve_media w i n groupId html vw vh mediaContent mediaType of
                    (Inl u, evs) \<Rightarrow> (Inl u, evs)
                  | (Inr media, evs) \<Rightarrow> (Inr (groupId, captionText, media), evs))))"

text \<open>The body of the loop for item \<open>i\<close>.\<close>

definition process_message ::
  "world \<Rightarrow> (nat \<Rightarrow> client_view) \<Rightarrow> js_number \<Rightarrow> nat \<Rightarrow> nat \<Rightarrow> json \<Rightarrow> batch_state
   \<Rightarrow> batch_state \<times> event list" where
  "process_message w client MESSAGE_DELAY_MS i n messageData st =
     (case prepare_message w i n messageData of
        (Inl (Counted l), evs) \<Rightarrow> (failed st, evs @ [Log l])
      | (Inl (Recounted l), evs) \<Rightarrow> (failed (failed st), evs @ [Log l])
      | (Inr (groupId, captionText, media), evs) \<Rightarrow>
          (let (st', sevs) = send_item client MESSAGE_DELAY_MS i n groupId captionText media st
           in (st', evs @ sevs)))"

text \<open>The loop \<open>for (let i = 0; i < messages.length; i++)\<close>, from \<open>i\<close> on.\<close>

function batch_loop ::
  "world \<Rightarrow> client \<Rightarrow> js_number \<Rightarrow> json list \<Rightarrow> nat \<Rightarrow> batch_state
   \<Rightarrow> batch_state \<times> event list" where
  "batch_loop w client MESSAGE_DELAY_MS messages i st =
     (if i < length messages then
        (let (st', evs) = process_message w (client i) MESSAGE_DELAY_MS i (length messages)
                            (messages ! i) st;
             (st'', rest) = batch_loop w client MESSAGE_DELAY_MS messages (i + 1) st'
         in (st'', evs @ rest))
      else (st, []))"
  by pat_completeness auto
termination
  by (relation "measure (\<lambda>(w, client, MESSAGE_DELAY_MS, messages, i, st). length messages - i)")
     auto

text \<open>
  The handler, on the request body and the two parsed settings. It returns the final
  counters, when the loop was run, and what it did.
\<close>

definition post_send_batch ::
  "world \<Rightarrow> whatsappclient_module \<Rightarrow> js_number \<Rightarrow> js_number \<Rightarrow> json
   \<Rightarrow> batch_state option \<times> event list" where
  "post_send_batch w m MAX_BATCH_SIZE MESSAGE_DELAY_MS body =
     (if nullish body then (None, [Log ConsoleError, Log FatalError])
      else
        (case get_prop body ''messages'' of
           JArr messages \<Rightarrow>
             if length messages = 0 then
               (None, [Log EmptyMessages,
                       Respond \<lparr> status = 400, success = False, message = EmptyArray \<rparr>])
             else if js_gt (Num (int (length messages))) MAX_BATCH_SIZE then
               (None, [Log (BatchSizeExceeded (length messages)),
                       Respond \<lparr> status = 400, success = False,
                                 message = BatchTooLarge MAX_BATCH_SIZE \<rparr>])
             else
               (case getWhatsAppClient m of
                  (None, gevs) \<Rightarrow>
                    (None, gevs @ [Log ClientNotReadyLog,
                                   Respond \<lparr> status = 503, success = False,
                                             message = ClientNotReady \<rparr>])
                | (Some client, gevs) \<Rightarrow>
                    (let (st, evs) = batch_loop w client MESSAGE_DELAY_MS messages 0
                                       \<lparr> successCount = 0, failureCount = 0 \<rparr>
                     in (Some st,
                         gevs @ [Respond \<lparr> status = 202, success = True,
                                           message = Accepted (length messages)
                                                       MESSAGE_DELAY_MS \<rparr>]
                           @ evs
                           @ [Log (BatchCompleted (successCount st) (failureCount st))])))
         | _ \<Rightarrow>
             (None, [Log InvalidMessages,
                     Respond \<lparr> status = 400, success = False, message = MustBeArray \<rparr>])))"

section \<open>The single-message endpoint\<close>

text \<open>Media resolution: \<open>Inl r\<close> when the handler returns early with the response \<open>r\<close>.\<close>

definition resolve_media_single ::
  "world \<Rightarrow> json \<Rightarrow> json \<Rightarrow> json \<Rightarrow> (response + media option) \<times> event list" where
  "resolve_media_single w html mediaContent mediaType =
     (if truthy html then
        (case htmlToImage (puppeteer w 0) html of
           (Inl e, evs) \<Rightarrow>
             (Inl \<lparr> status = 500, success = False, message = HtmlConversionFailed e \<rparr>,
              evs @ [Log SingleHtmlError])
         | (Inr (filePath, fileName), evs) \<Rightarrow>
             (let path = ''./'' @ filePath in
              case fromFilePath w 0 path of
                Some e \<Rightarrow>
                  (Inl \<lparr> status = 500, success = False,
                         message = HtmlConversionFailed (Error e) \<rparr>,
                   evs @ [Log (ConsoleLog filePath fileName), FromFilePath path,
                          Log SingleHtmlError])
              | None \<Rightarrow>
                  (Inr (Some (FileMedia path)),
                   evs @ [Log (ConsoleLog filePath fileName), FromFilePath path,
                          Log (HtmlConverted fileName)])))
      else if truthy mediaContent \<and> truthy mediaType then
        (if mediaType = JStr ''base64'' then
           (case (case mediaContent of JStr s \<Rightarrow> base64_media_single s | _ \<Rightarrow> Inl TypeError) of
              Inl e \<Rightarrow>
                (Inl \<lparr> status = 500, success = False, message = MediaProcessingFailed e \<rparr>,
                 [Log SingleMediaError])
            | Inr media \<Rightarrow> (Inr (Some media), []))
         else if mediaType = JStr ''url'' then
           (case fromUrl w 0 mediaContent of
              Some e \<Rightarrow>
                (Inl \<lparr> status = 500, success = False,
                       message = MediaProcessingFailed (Error e) \<rparr>,
                 [FromUrl mediaContent, Log SingleMediaError])
            | None \<Rightarrow> (Inr (Some (UrlMedia mediaContent)), [FromUrl mediaContent]))
         else (Inl \<lparr> status = 400, success = False, message = InvalidMediaType \<rparr>, []))
      else (Inr None, []))"

text \<open>The log after the send writes the destination into its line; when that throws,
  the handler's \<open>catch\<close> answers 500 although the message was sent.\<close>

definition post_send :: "world \<Rightarrow> whatsappclient_module \<Rightarrow> json \<Rightarrow> event list" where
  "post_send w m body =
     (if nullish body then
        [Log SingleSendError,
         Respond \<lparr> status = 500, success = False, message = SendFailed TypeError \<rparr>]
      else
        (let groupId = get_prop body ''groupId'';
             message = get_prop body ''message'';
             mediaType = get_prop body ''mediaType'';
             mediaContent = get_prop body ''mediaContent'';
             html = get_prop body ''html''
         in if \<not> truthy groupId then
              [Respond \<lparr> status = 400, success = False, message = GroupIdRequired \<rparr>]
            else if \<not> truthy message \<and> \<not> truthy mediaContent \<and> \<not> truthy html then
              [Respond \<lparr> status = 400, success = False, message = ContentRequired \<rparr>]
            else
              (case getWhatsAppClient m of
                 (None, gevs) \<Rightarrow>
                   gevs @ [Respond \<lparr> status = 503, success = False, message = ClientNotReady \<rparr>]
               | (Some client, gevs) \<Rightarrow>
                   if \<not> info (client 0 0) then
                     gevs @ [Respond \<lparr> status = 503, success = False,
                                       message = ClientNotReady \<rparr>]
                   else
                     (let captionText = (if truthy message then message else JStr [])
                      in case resolve_media_single w html mediaContent mediaType of
                           (Inl r, evs) \<Rightarrow> gevs @ evs @ [Respond r]
                         | (Inr media, evs) \<Rightarrow>
                             (let (content, opts, sent) =
                                    (case media of
                                       Some med \<Rightarrow> (Media med, Caption captionText, SingleMediaSent)
                                     | None \<Rightarrow> (Text captionText, NoOptions, SingleTextSent))
                              in case sendMessage (client 0 0) groupId content opts of
                                   Inl msg \<Rightarrow>
                                     gevs @ evs @
                                     [SendMessage groupId content opts, Log SingleSendError,
                                      Respond \<lparr> status = 500, success = False,
                                                message = SendFailed (Error msg) \<rparr>]
                                 | Inr result \<Rightarrow>
                                     if to_string_throws groupId then
                                       gevs @ evs @
                                       [SendMessage groupId content opts, Log SingleSendError,
                                        Respond \<lparr> status = 500, success = False,
                                                  message = SendFailed TypeError \<rparr>]
                                     else
                                       gevs @ evs @
                                       [SendMessage groupId content opts, Log sent,
                                        Respond \<lparr> status = 200, success = True,
                                                  message = MessageSent groupId \<rparr>])))))"

section \<open>Sessions, worlds and requests used as examples\<close>

definition ready_view :: client_view where
  "ready_view =
     \<lparr> info = True, pupPage = True, pupBrowser = True,
       sendMessage = (\<lambda>groupId content opts. Inr ''true_1203630@g.us_3EB0''),
       refreshState = None \<rparr>"

text \<open>A session whose every send fails with a WidFactory error and whose state refresh
  fails too.\<close>

definition widfactory_view :: client_view where
  "widfactory_view =
     \<lparr> info = True, pupPage = True, pupBrowser = True,
       sendMessage = (\<lambda>groupId content opts. Inl ''Evaluation failed: WidFactory is missing''),
       refreshState = Some (Some ''Protocol error'') \<rparr>"

text \<open>A session that refuses the destination.\<close>

definition refusing_view :: client_view where
  "refusing_view =
     \<lparr> info = True, pupPage = True, pupBrowser = True,
       sendMessage = (\<lambda>groupId content opts. Inl ''invalid wid''),
       refreshState = None \<rparr>"

definition ready_client :: client where
  "ready_client i a = ready_view"

definition refusing_client :: client where
  "refusing_client i a = refusing_view"

definition widfactory_client :: client where
  "widfactory_client i a = widfactory_view"

definition ready_module :: whatsappclient_module where
  "ready_module = setWhatsAppClient ready_client module_loaded"

definition refusing_module :: whatsappclient_module where
  "refusing_module = setWhatsAppClient refusing_client module_loaded"

definition quiet_world :: world where
  "quiet_world =
     \<lparr> puppeteer = (\<lambda>i req. Inr (''images/0b7e.png'', ''0b7e.png'')),
       fromFilePath = (\<lambda>i path. None),
       fromUrl = (\<lambda>i url. None) \<rparr>"

definition text_item :: json where
  "text_item = JObj [(''groupId'', JStr ''1203630@g.us''), (''message'', JStr ''hello'')]"

definition no_destination_item :: json where
  "no_destination_item = JObj [(''message'', JStr ''hello'')]"

definition batch_body :: "json list \<Rightarrow> json" where
  "batch_body items = JObj [(''messages'', JArr items)]"


definition data_uri_request :: json where
  "data_uri_request =
     JObj [(''groupId'', JStr ''1203630@g.us''), (''mediaType'', JStr ''base64''),
           (''mediaContent'', JStr ''data:image/jpeg;base64,AAAA'')]"

definition markup_request :: json where
  "markup_request =
     JObj [(''groupId'', JStr ''1203630@g.us''), (''html'', JStr ''<b>hello</b>''),
           (''vw'', JNum 400), (''vh'', JNum 300)]"

section \<open>What a run shows\<close>

text \<open>The outcome logs: the logs that settle an item, with the item's number.\<close>

fun outcome_of :: "event \<Rightarrow> nat option" where
  "outcome_of (Log (MissingGroupId i n)) = Some i"
| "outcome_of (Log (MissingContent i n)) = Some i"
| "outcome_of (Log (HtmlError i n)) = Some i"
| "outcome_of (Log (InvalidMediaTypeLog i n)) = Some i"
| "outcome_of (Log (MediaError i n)) = Some i"
| "outcome_of (Log (MediaMessageSent i n)) = Some i"
| "outcome_of (Log (TextMessageSent i n)) = Some i"
| "outcome_of (Log (AllRetriesFailed i n)) = Some i"
| "outcome_of (Log (UnexpectedError i n)) = Some i"
| "outcome_of e = None"

fun is_send :: "event \<Rightarrow> bool" where
  "is_send (SendMessage groupId content opts) = True"
| "is_send e = False"

fun is_throttle :: "event \<Rightarrow> bool" where
  "is_throttle (Sleep Throttle d) = True"
| "is_throttle e = False"

text \<open>The events the retry policy can produce.\<close>

fun is_retry_event :: "event \<Rightarrow> bool" where
  "is_retry_event (Sleep Settle d) = True"
| "is_retry_event (Sleep Backoff d) = True"
| "is_retry_event (SendMessage groupId content opts) = True"
| "is_retry_event RefreshState = True"
| "is_retry_event (Log (AttemptFailed a m msg)) = True"
| "is_retry_event (Log (WaitingRetry d)) = True"
| "is_retry_event (Log (RefreshFailed msg)) = True"
| "is_retry_event e = False"

text \<open>The item numbers of the outcome logs of a run, in the order they were written.\<close>

definition outcomes :: "event list \<Rightarrow> nat list" where
  "outcomes evs = List.map_filter outcome_of evs"

text \<open>Events that come before the send of an item: no outcome log, no wait between
  messages, no send.\<close>

definition quiet :: "event list \<Rightarrow> bool" where
  "quiet evs = (\<forall>e \<in> set evs. outcome_of e = None \<and> \<not> is_throttle e \<and> \<not> is_send e)"

text \<open>The log an item is given up with, and how often it is then counted as failed.\<close>

fun given_up_log :: "given_up \<Rightarrow> log" where
  "given_up_log (Counted l) = l"
| "given_up_log (Recounted l) = l"

fun given_up_count :: "given_up \<Rightarrow> nat" where
  "given_up_count (Counted l) = 1"
| "given_up_count (Recounted l) = 2"




section \<open>The retry loop, step by step\<close>

declare retry_loop.simps [simp del]
declare batch_loop.simps [simp del]

lemma transient_not_initialized: "is_transient ''WhatsApp client not fully initialized''"
  by (simp add: is_transient_def startsWith_def)

lemma retry_loop_exhausted:
  "MAX_RETRIES < attempt \<Longrightarrow> retry_loop client g c opts attempt lastError = (Inl lastError, [])"
  by (subst retry_loop.simps) simp

lemma retry_loop_transient:
  assumes "attempt \<le> MAX_RETRIES"
    and "fst (attempt_send (client attempt) g c opts) = Inl msg"
    and "is_transient msg"
  shows "retry_loop client g c opts attempt lastError =
           (fst (retry_loop client g c opts (attempt + 1) (Some msg)),
            snd (attempt_send (client attempt) g c opts)
            @ [Log (AttemptFailed attempt MAX_RETRIES msg),
               Log (WaitingRetry (2 ^ attempt * 3000)),
               Sleep Backoff (Num (int (2 ^ attempt * 3000)))]
            @ refresh (client attempt)
            @ snd (retry_loop client g c opts (attempt + 1) (Some msg)))"
  using assms
  by (subst retry_loop.simps) (auto split: prod.splits sum.splits)

lemma retry_loop_transient_at:
  assumes "attempt \<le> MAX_RETRIES"
    and "fst (attempt_send (client attempt) g c opts) = Inl msg"
    and "is_transient msg"
    and "nxt = attempt + 1"
    and "d = 2 ^ attempt * 3000"
    and "retry_loop client g c opts nxt (Some msg) = (res, rest)"
  shows "retry_loop client g c opts attempt lastError =
           (res,
            snd (attempt_send (client attempt) g c opts)
            @ [Log (AttemptFailed attempt MAX_RETRIES msg), Log (WaitingRetry d),
               Sleep Backoff (Num (int d))]
            @ refresh (client attempt) @ rest)"
  using retry_loop_transient [of attempt client g c opts msg lastError] assms by simp

lemma retry_loop_permanent:
  assumes "attempt \<le> MAX_RETRIES"
    and "fst (attempt_send (client attempt) g c opts) = Inl msg"
    and "\<not> is_transient msg"
  shows "retry_loop client g c opts attempt lastError =
           (Inl (Some msg),
            snd (attempt_send (client attempt) g c opts)
            @ [Log (AttemptFailed attempt MAX_RETRIES msg)])"
  using assms
  by (subst retry_loop.simps) (auto split: prod.splits sum.splits)

lemma retry_loop_success:
  assumes "attempt \<le> MAX_RETRIES"
    and "fst (attempt_send (client attempt) g c opts) = Inr r"
  shows "retry_loop client g c opts attempt lastError =
           (Inr r, snd (attempt_send (client attempt) g c opts))"
  using assms
  by (subst retry_loop.simps) (auto split: prod.splits sum.splits)

lemma attempt_send_events:
  "(\<forall>e \<in> set (snd (attempt_send v g c opts)). is_retry_event e)
   \<and> length (filter is_send (snd (attempt_send v g c opts))) \<le> 1"
  by (simp add: attempt_send_def)

lemma refresh_events:
  "(\<forall>e \<in> set (refresh v). is_retry_event e) \<and> filter is_send (refresh v) = []"
  by (simp add: refresh_def split: option.splits)

text \<open>Three facts about the loop from any attempt on: what it emits, how often it
  sends, and that it never throws \<open>null\<close> once an attempt was made.\<close>

lemma retry_loop_props:
  "(\<forall>e \<in> set (snd (retry_loop client g c opts a lastError)). is_retry_event e)
   \<and> length (filter is_send (snd (retry_loop client g c opts a lastError))) \<le> Suc MAX_RETRIES - a
   \<and> (a \<le> MAX_RETRIES \<or> lastError \<noteq> None \<longrightarrow> fst (retry_loop client g c opts a lastError) \<noteq> Inl None)"
proof (induction "Suc MAX_RETRIES - a" arbitrary: a lastError)
  case 0
  then have "MAX_RETRIES < a" by simp
  then show ?case by (simp add: retry_loop_exhausted)
next
  case (Suc k)
  then have le: "a \<le> MAX_RETRIES" and k: "k = Suc MAX_RETRIES - (a + 1)" by simp_all
  have split: "Suc MAX_RETRIES - a = Suc (Suc MAX_RETRIES - (a + 1))"
    using le by simp
  note ev = attempt_send_events [of "client a" g c opts]
  show ?case
  proof (cases "fst (attempt_send (client a) g c opts)")
    case (Inr r)
    show ?thesis
      using ev le by (simp add: retry_loop_success [of a client g c opts r, OF le Inr] split)
  next
    case (Inl msg)
    show ?thesis
    proof (cases "is_transient msg")
      case False
      show ?thesis
        using ev le
        by (simp add: retry_loop_permanent [of a client g c opts msg, OF le Inl False] split)
    next
      case True
      note ih = Suc.hyps(1) [OF k, of "Some msg"]
      show ?thesis
        using ev le ih refresh_events [of "client a"]
        by (auto simp add: retry_loop_transient [of a client g c opts msg, OF le Inl True] split)
    qed
  qed
qed

lemma sendMessageWithRetry_not_null:
  "fst (sendMessageWithRetry client g c opts) \<noteq> Inl None"
  using retry_loop_props [of client g c opts 1 None]
  by (simp add: sendMessageWithRetry_def MAX_RETRIES_def)

lemma sendMessageWithRetry_events:
  "e \<in> set (snd (sendMessageWithRetry client g c opts)) \<Longrightarrow> is_retry_event e"
  using retry_loop_props [of client g c opts 1 None]
  by (simp add: sendMessageWithRetry_def)

lemma sendMessageWithRetry_sends:
  "length (filter is_send (snd (sendMessageWithRetry client g c opts))) \<le> 3"
  using retry_loop_props [of client g c opts 1 None]
  by (simp add: sendMessageWithRetry_def MAX_RETRIES_def)

lemma retry_event_no_outcome: "is_retry_event e \<Longrightarrow> outcome_of e = None \<and> \<not> is_throttle e"
  by (cases e rule: is_retry_event.cases) simp_all

section \<open>The batch loop, item by item\<close>

lemma outcomes_simps:
  "outcomes [] = []"
  "outcomes (e # evs) = (case outcome_of e of None \<Rightarrow> outcomes evs | Some i \<Rightarrow> i # outcomes evs)"
  "outcomes (evs @ evs') = outcomes evs @ outcomes evs'"
  by (simp_all add: outcomes_def List.map_filter_def split: option.splits)

lemma outcomes_none: "\<forall>e \<in> set evs. outcome_of e = None \<Longrightarrow> outcomes evs = []"
  by (induction evs) (simp_all add: outcomes_simps)

lemma quiet_simps:
  "quiet []"
  "quiet (e # evs) = (outcome_of e = None \<and> \<not> is_throttle e \<and> \<not> is_send e \<and> quiet evs)"
  "quiet (evs @ evs') = (quiet evs \<and> quiet evs')"
  by (auto simp: quiet_def)

lemma htmlToImage_quiet: "quiet (snd (htmlToImage browser arg))"
  by (simp add: htmlToImage_def Let_def quiet_simps split: sum.splits prod.splits)

lemma resolve_media_quiet:
  "quiet (snd (resolve_media w i n groupId html vw vh mediaContent mediaType))"
proof (cases "truthy html")
  case True
  obtain r evs where eq: "htmlToImage (puppeteer w i)
      (JObj [(''htmlContent'', html), (''vw'', vw), (''vh'', vh)]) = (r, evs)"
    by (cases "htmlToImage (puppeteer w i)
      (JObj [(''htmlContent'', html), (''vw'', vw), (''vh'', vh)])")
  have "quiet evs"
    using htmlToImage_quiet [of "puppeteer w i"
      "JObj [(''htmlContent'', html), (''vw'', vw), (''vh'', vh)]"] eq by simp
  then show ?thesis
    using True
    by (cases r) (auto simp: resolve_media_def eq Let_def quiet_simps split: option.splits)
next
  case False
  then show ?thesis
    by (simp add: resolve_media_def quiet_simps split: option.splits json.splits)
qed

lemma case_pass:
  "snd (case r of (Inl l, evs) \<Rightarrow> (Inl l, evs) | (Inr m, evs) \<Rightarrow> (Inr (f m), evs)) = snd r"
  "(fst (case r of (Inl l, evs) \<Rightarrow> (Inl l, evs) | (Inr m, evs) \<Rightarrow> (Inr (f m), evs)) = Inl l')
     = (fst r = Inl l')"
  by (cases r; cases "fst r"; simp)+

lemma prepare_message_quiet: "quiet (snd (prepare_message w i n messageData))"
  using resolve_media_quiet [of w i n]
  by (simp add: prepare_message_def Let_def case_pass quiet_simps)





lemma after_send_last: "n \<le> i + 1 \<Longrightarrow> filter is_throttle (after_send D i n st) = []"
  by (simp add: after_send_def)

lemma after_send_between:
  "i + 1 < n \<Longrightarrow> after_send D i n st =
     [Log (WaitingNext D), Sleep Throttle D,
      Log (Progress (i + 1) n (successCount st) (failureCount st))]"
  by (simp add: after_send_def)

lemma process_message_given_up:
  assumes "fst (prepare_message w i n messageData) = Inl u"
  shows "process_message w client D i n messageData st =
           (st \<lparr> failureCount := failureCount st + given_up_count u \<rparr>,
            snd (prepare_message w i n messageData) @ [Log (given_up_log u)])"
  using assms
  by (cases "prepare_message w i n messageData"; cases u)
     (simp_all add: process_message_def failed_def)

lemma process_message_sent:
  assumes "fst (prepare_message w i n messageData) = Inr (g, cap, media)"
  shows "process_message w client D i n messageData st =
           (fst (send_item client D i n g cap media st),
            snd (prepare_message w i n messageData) @ snd (send_item client D i n g cap media st))"
  using assms
  by (cases "prepare_message w i n messageData")
     (simp add: process_message_def split: prod.splits)

text \<open>The send of an item settles it once, as a success or as a failure, and ends
  with the wait before the next item and the progress log.\<close>

lemma send_item_settles:
  "\<exists>st' evs. st' \<in> {succeeded st, failed st}
     \<and> send_item client D i n g cap media st = (st', evs @ after_send D i n st')
     \<and> outcomes evs = [i + 1] \<and> filter is_throttle evs = []"
proof -
  obtain content opts sent where cos:
    "(case media of
        Some m \<Rightarrow> (Media m, Caption cap, MediaMessageSent (i + 1) n)
      | None \<Rightarrow> (Text cap, NoOptions, TextMessageSent (i + 1) n)) = (content, opts, sent)"
    by (cases media) simp_all
  then have sent: "outcome_of (Log sent) = Some (i + 1)"
    by (cases media) auto
  obtain r sevs where run: "sendMessageWithRetry client g content opts = (r, sevs)"
    by (cases "sendMessageWithRetry client g content opts")
  have ev: "\<forall>e \<in> set sevs. outcome_of e = None \<and> \<not> is_throttle e"
    using sendMessageWithRetry_events [of _ client g content opts] retry_event_no_outcome run
    by auto
  then have none: "outcomes sevs = []" and nothr: "filter is_throttle sevs = []"
    by (simp_all add: outcomes_none)
  have notnull: "r \<noteq> Inl None"
    using sendMessageWithRetry_not_null [of client g content opts] run by simp
  show ?thesis
  proof (cases r)
    case (Inr result)
    show ?thesis
    proof (cases "to_string_throws g")
      case False
      have "send_item client D i n g cap media st
              = (succeeded st, (sevs @ [Log sent]) @ after_send D i n (succeeded st))"
        by (simp add: send_item_def cos run Inr False Let_def)
      moreover have "outcomes (sevs @ [Log sent]) = [i + 1]"
        by (simp add: outcomes_simps none sent)
      moreover have "filter is_throttle (sevs @ [Log sent]) = []"
        by (simp add: nothr)
      ultimately show ?thesis by blast
    next
      case True
      have "send_item client D i n g cap media st
              = (failed st, (sevs @ [Log (AllRetriesFailed (i + 1) n)])
                            @ after_send D i n (failed st))"
        by (simp add: send_item_def cos run Inr True Let_def)
      moreover have "outcomes (sevs @ [Log (AllRetriesFailed (i + 1) n)]) = [i + 1]"
        by (simp add: outcomes_simps none)
      moreover have "filter is_throttle (sevs @ [Log (AllRetriesFailed (i + 1) n)]) = []"
        by (simp add: nothr)
      ultimately show ?thesis by blast
    qed
  next
    case (Inl err)
    then obtain msg where err: "err = Some msg"
      using notnull by (cases err) auto
    let ?evs = "sevs @ [Log (AllRetriesFailed (i + 1) n)]
                  @ (if js_includes msg ''WidFactory''
                     then [Log IncreasingDelay, Sleep Cooldown (js_times D (Num 2))] else [])"
    have "send_item client D i n g cap media st
            = (failed st, ?evs @ after_send D i n (failed st))"
      by (simp add: send_item_def cos run Inl err Let_def)
    moreover have "outcomes ?evs = [i + 1]"
      by (simp add: outcomes_simps none)
    moreover have "filter is_throttle ?evs = []"
      by (simp add: nothr)
    ultimately show ?thesis by blast
  qed
qed






lemma batch_loop_step:
  "i < length messages \<Longrightarrow>
   batch_loop w client D messages i st =
     (fst (batch_loop w client D messages (i + 1)
             (fst (process_message w (client i) D i (length messages) (messages ! i) st))),
      snd (process_message w (client i) D i (length messages) (messages ! i) st)
      @ snd (batch_loop w client D messages (i + 1)
               (fst (process_message w (client i) D i (length messages) (messages ! i) st))))"
  by (subst batch_loop.simps) (simp split: prod.splits)

lemma batch_loop_end:
  "length messages \<le> i \<Longrightarrow> batch_loop w client D messages i st = (st, [])"
  by (subst batch_loop.simps) simp



lemma process_message_last:
  assumes "n \<le> i + 1"
  shows "filter is_throttle (snd (process_message w client D i n messageData st)) = []"
proof (cases "fst (prepare_message w i n messageData)")
  case (Inl u)
  have "filter is_throttle (snd (prepare_message w i n messageData)) = []"
    using prepare_message_quiet [of w i n messageData] by (simp add: quiet_def)
  then show ?thesis
    by (simp add: process_message_given_up [OF Inl])
next
  case (Inr p)
  obtain g cap media where p: "p = (g, cap, media)" by (cases p)
  obtain st' evs where s:
      "send_item client D i n g cap media st = (st', evs @ after_send D i n st')"
      "filter is_throttle evs = []"
    using send_item_settles [of st client D i n g cap media] by blast
  have "filter is_throttle (snd (prepare_message w i n messageData)) = []"
    using prepare_message_quiet [of w i n messageData] by (simp add: quiet_def)
  then show ?thesis
    using Inr p s after_send_last [OF assms]
    by (simp add: process_message_sent)
qed

section \<open>The data-URI pattern on inputs it does not match\<close>

lemma backtrack_None:
  "(\<And>k. 0 < k \<Longrightarrow> k \<le> n \<Longrightarrow> cont (drop k s) = None) \<Longrightarrow> backtrack cont s n = None"
  by (induction n) simp_all

lemma mime_class_not_semicolon: "mime_class c \<Longrightarrow> c \<noteq> CHR '';''"
  by (auto simp: mime_class_def)

lemma takeWhile_shorter:
  assumes "\<And>x. P x \<Longrightarrow> Q x"
    and "\<exists>x \<in> set (takeWhile Q xs). \<not> P x"
  shows "length (takeWhile P xs) < length (takeWhile Q xs)"
  using assms(2)
proof (induction xs)
  case Nil
  then show ?case by simp
next
  case (Cons x xs)
  then show ?case
    using assms(1) by (cases "P x") (auto split: if_splits)
qed

lemma takeWhile_holds: "k < length (takeWhile Q xs) \<Longrightarrow> Q (xs ! k)"
  using takeWhile_nth [of k Q xs] nth_mem [of k "takeWhile Q xs"] set_takeWhileD [of _ Q xs]
  by metis

lemma data_uri_no_match:
  assumes "startsWith s ''data:''"
    and "\<exists>c \<in> set (takeWhile (\<lambda>c. c \<noteq> CHR '';'') (drop 5 s)). \<not> mime_class c"
  shows "js_match s data_uri_regex = None"
proof -
  let ?rest = "drop 5 s"
  let ?cont = "rx_groups [Lit '';base64,'', Group_plus dot_class]"
  have shorter: "length (takeWhile mime_class ?rest)
                   < length (takeWhile (\<lambda>c. c \<noteq> CHR '';'') ?rest)"
    using takeWhile_shorter [of mime_class "\<lambda>c. c \<noteq> CHR '';''" ?rest]
          mime_class_not_semicolon assms(2)
    by blast
  have "?cont (drop k ?rest) = None" if "0 < k" "k \<le> length (takeWhile mime_class ?rest)" for k
  proof -
    have k: "k < length (takeWhile (\<lambda>c. c \<noteq> CHR '';'') ?rest)"
      using that shorter by simp
    then have "?rest ! k \<noteq> CHR '';''"
      by (rule takeWhile_holds)
    moreover have "k < length ?rest"
      using k length_takeWhile_le [of "\<lambda>c. c \<noteq> CHR '';''" ?rest] by simp
    ultimately have "\<not> startsWith (drop k ?rest) '';base64,''"
      by (cases "drop k ?rest") (auto simp: startsWith_def hd_drop_conv_nth [symmetric])
    then show ?thesis by simp
  qed
  then have "backtrack ?cont ?rest (length (takeWhile mime_class ?rest)) = None"
    by (rule backtrack_None)
  then show ?thesis
    using assms(1) by (simp add: js_match_def data_uri_regex_def eval_nat_numeral)
qed

section \<open>What the run of a batch holds for single items\<close>






section \<open>The claims\<close>

text \<open>
  C1. When each of the three attempts fails with a message holding one of the markers
  "WidFactory", "undefined" or "not fully initialized" (a send that was refused, or a
  session found not initialised), \<open>sendMessageWithRetry\<close> makes the three attempts,
  sleeps 6000, 12000 and 24000 ms after the first, second and third failure, calls the
  state refresh after each sleep when the session has one, dropping its failure, and
  throws the error of the third attempt. Whatever the session does, it sends at most
  three times, and at any attempt a failure of this kind is followed by the sleep of
  \<open>2 ^ attempt * 3000\<close> ms, the refresh and the next round of the loop.
\<close>

theorem retry_transient_exhausts_three_attempts:
  assumes "\<forall>a \<in> {1, 2, 3}. fst (attempt_send (client a) g c opts) = Inl (msg a)
                               \<and> is_transient (msg a)"
  shows "sendMessageWithRetry client g c opts =
           (Inl (Some (msg 3)),
            snd (attempt_send (client 1) g c opts)
            @ [Log (AttemptFailed 1 3 (msg 1)), Log (WaitingRetry 6000), Sleep Backoff (Num 6000)]
            @ refresh (client 1)
            @ snd (attempt_send (client 2) g c opts)
            @ [Log (AttemptFailed 2 3 (msg 2)), Log (WaitingRetry 12000), Sleep Backoff (Num 12000)]
            @ refresh (client 2)
            @ snd (attempt_send (client 3) g c opts)
            @ [Log (AttemptFailed 3 3 (msg 3)), Log (WaitingRetry 24000), Sleep Backoff (Num 24000)]
            @ refresh (client 3))
         \<and> length (filter is_send (snd (sendMessageWithRetry client g c opts))) \<le> 3
         \<and> (\<forall>a m lastError.
               a \<le> MAX_RETRIES \<and> fst (attempt_send (client a) g c opts) = Inl m
                 \<and> is_transient m
               \<longrightarrow> retry_loop client g c opts a lastError =
                     (fst (retry_loop client g c opts (a + 1) (Some m)),
                      snd (attempt_send (client a) g c opts)
                      @ [Log (AttemptFailed a MAX_RETRIES m),
                         Log (WaitingRetry (2 ^ a * 3000)),
                         Sleep Backoff (Num (int (2 ^ a * 3000)))]
                      @ refresh (client a)
                      @ snd (retry_loop client g c opts (a + 1) (Some m))))"
proof -
  have step: "\<forall>a m lastError.
               a \<le> MAX_RETRIES \<and> fst (attempt_send (client a) g c opts) = Inl m
                 \<and> is_transient m
               \<longrightarrow> retry_loop client g c opts a lastError =
                     (fst (retry_loop client g c opts (a + 1) (Some m)),
                      snd (attempt_send (client a) g c opts)
                      @ [Log (AttemptFailed a MAX_RETRIES m),
                         Log (WaitingRetry (2 ^ a * 3000)),
                         Sleep Backoff (Num (int (2 ^ a * 3000)))]
                      @ refresh (client a)
                      @ snd (retry_loop client g c opts (a + 1) (Some m)))"
    using retry_loop_transient [of _ client g c opts] by blast
  have a1: "fst (attempt_send (client 1) g c opts) = Inl (msg 1)" "is_transient (msg 1)"
    and a2: "fst (attempt_send (client 2) g c opts) = Inl (msg 2)" "is_transient (msg 2)"
    and a3: "fst (attempt_send (client 3) g c opts) = Inl (msg 3)" "is_transient (msg 3)"
    using assms by simp_all
  have le: "1 \<le> MAX_RETRIES" "2 \<le> MAX_RETRIES" "3 \<le> MAX_RETRIES"
    by (simp_all add: MAX_RETRIES_def)
  have nx: "(2::nat) = 1 + 1" "(3::nat) = 2 + 1" "(4::nat) = 3 + 1"
    by simp_all
  have d: "(6000::nat) = 2 ^ 1 * 3000" "(12000::nat) = 2 ^ 2 * 3000" "(24000::nat) = 2 ^ 3 * 3000"
    by simp_all
  have r4: "retry_loop client g c opts 4 (Some (msg 3)) = (Inl (Some (msg 3)), [])"
    by (rule retry_loop_exhausted) (simp add: MAX_RETRIES_def)
  have r3: "retry_loop client g c opts 3 (Some (msg 2)) =
      (Inl (Some (msg 3)),
       snd (attempt_send (client 3) g c opts)
       @ [Log (AttemptFailed 3 3 (msg 3)), Log (WaitingRetry 24000), Sleep Backoff (Num 24000)]
       @ refresh (client 3))"
    using retry_loop_transient_at [of 3 client g c opts, OF le(3) a3 nx(3) d(3) r4]
    by (simp add: MAX_RETRIES_def)
  have r2: "retry_loop client g c opts 2 (Some (msg 1)) =
      (Inl (Some (msg 3)),
       snd (attempt_send (client 2) g c opts)
       @ [Log (AttemptFailed 2 3 (msg 2)), Log (WaitingRetry 12000), Sleep Backoff (Num 12000)]
       @ refresh (client 2)
       @ snd (attempt_send (client 3) g c opts)
       @ [Log (AttemptFailed 3 3 (msg 3)), Log (WaitingRetry 24000), Sleep Backoff (Num 24000)]
       @ refresh (client 3))"
    using retry_loop_transient_at [of 2 client g c opts, OF le(2) a2 nx(2) d(2) r3]
    by (simp add: MAX_RETRIES_def)
  have "sendMessageWithRetry client g c opts =
      (Inl (Some (msg 3)),
       snd (attempt_send (client 1) g c opts)
       @ [Log (AttemptFailed 1 3 (msg 1)), Log (WaitingRetry 6000), Sleep Backoff (Num 6000)]
       @ refresh (client 1)
       @ snd (attempt_send (client 2) g c opts)
       @ [Log (AttemptFailed 2 3 (msg 2)), Log (WaitingRetry 12000), Sleep Backoff (Num 12000)]
       @ refresh (client 2)
       @ snd (attempt_send (client 3) g c opts)
       @ [Log (AttemptFailed 3 3 (msg 3)), Log (WaitingRetry 24000), Sleep Backoff (Num 24000)]
       @ refresh (client 3))"
    unfolding sendMessageWithRetry_def
    using retry_loop_transient_at [of 1 client g c opts, OF le(1) a1 nx(1) d(1) r2]
    by (simp add: MAX_RETRIES_def)
  then show ?thesis
    using sendMessageWithRetry_sends [of client g c opts] step by blast
qed

theorem retry_transient_witness:
  "sendMessageWithRetry (widfactory_client 0) (JStr ''1203630@g.us'') (Text (JStr ''hello''))
     NoOptions =
     (Inl (Some ''Evaluation failed: WidFactory is missing''),
      [Sleep Settle (Num 2000),
       SendMessage (JStr ''1203630@g.us'') (Text (JStr ''hello'')) NoOptions,
       Log (AttemptFailed 1 3 ''Evaluation failed: WidFactory is missing''),
       Log (WaitingRetry 6000), Sleep Backoff (Num 6000),
       RefreshState, Log (RefreshFailed ''Protocol error''),
       Sleep Settle (Num 2000),
       SendMessage (JStr ''1203630@g.us'') (Text (JStr ''hello'')) NoOptions,
       Log (AttemptFailed 2 3 ''Evaluation failed: WidFactory is missing''),
       Log (WaitingRetry 12000), Sleep Backoff (Num 12000),
       RefreshState, Log (RefreshFailed ''Protocol error''),
       Sleep Settle (Num 2000),
       SendMessage (JStr ''1203630@g.us'') (Text (JStr ''hello'')) NoOptions,
       Log (AttemptFailed 3 3 ''Evaluation failed: WidFactory is missing''),
       Log (WaitingRetry 24000), Sleep Backoff (Num 24000),
       RefreshState, Log (RefreshFailed ''Protocol error'')])"
proof -
  have t: "is_transient ''Evaluation failed: WidFactory is missing''"
    by (simp add: is_transient_def startsWith_def)
  have h: "\<forall>a \<in> {1, 2, 3}.
      fst (attempt_send (widfactory_client 0 a) (JStr ''1203630@g.us'') (Text (JStr ''hello''))
             NoOptions)
        = Inl ((\<lambda>a. ''Evaluation failed: WidFactory is missing'') a)
      \<and> is_transient ((\<lambda>a. ''Evaluation failed: WidFactory is missing'') a)"
    using t by (simp add: attempt_send_def widfactory_client_def widfactory_view_def)
  show ?thesis
    using retry_transient_exhausts_three_attempts
            [of "widfactory_client 0" "JStr ''1203630@g.us''" "Text (JStr ''hello'')" NoOptions
                "\<lambda>a. ''Evaluation failed: WidFactory is missing''", OF h, THEN conjunct1]
    by (simp add: attempt_send_def refresh_def widfactory_client_def widfactory_view_def)
qed

text \<open>
  C2. When the first attempt fails with a message holding none of the three markers,
  \<open>sendMessageWithRetry\<close> throws that error after this one attempt: one send, no
  backoff sleep, no state refresh, no second attempt. The same holds at a later
  attempt: the loop ends with the attempt that fails so, throwing its error.
\<close>

theorem retry_permanent_stops_at_once:
  assumes "fst (attempt_send (client 1) g c opts) = Inl msg"
    and "\<not> is_transient msg"
  shows "sendMessageWithRetry client g c opts =
           (Inl (Some msg),
            [Sleep Settle (Num 2000), SendMessage g c opts, Log (AttemptFailed 1 3 msg)])
         \<and> (\<forall>a m lastError.
               a \<le> MAX_RETRIES \<and> fst (attempt_send (client a) g c opts) = Inl m
                 \<and> \<not> is_transient m
               \<longrightarrow> retry_loop client g c opts a lastError =
                     (Inl (Some m),
                      snd (attempt_send (client a) g c opts)
                      @ [Log (AttemptFailed a MAX_RETRIES m)]))"
proof -
  have later: "\<forall>a m lastError.
               a \<le> MAX_RETRIES \<and> fst (attempt_send (client a) g c opts) = Inl m
                 \<and> \<not> is_transient m
               \<longrightarrow> retry_loop client g c opts a lastError =
                     (Inl (Some m),
                      snd (attempt_send (client a) g c opts)
                      @ [Log (AttemptFailed a MAX_RETRIES m)])"
    using retry_loop_permanent [of _ client g c opts] by blast
  have ready: "pupPage (client 1) \<and> pupBrowser (client 1)"
    using assms transient_not_initialized
    by (auto simp: attempt_send_def split: if_splits)
  then have "snd (attempt_send (client 1) g c opts)
               = [Sleep Settle (Num 2000), SendMessage g c opts]"
    by (simp add: attempt_send_def)
  then have "sendMessageWithRetry client g c opts =
           (Inl (Some msg),
            [Sleep Settle (Num 2000), SendMessage g c opts, Log (AttemptFailed 1 3 msg)])"
    unfolding sendMessageWithRetry_def
    using retry_loop_permanent [of 1 client g c opts msg None] assms
    by (simp add: MAX_RETRIES_def)
  then show ?thesis
    using later by blast
qed

theorem retry_permanent_witness:
  "\<not> is_transient ''invalid wid''
   \<and> sendMessageWithRetry (refusing_client 0) (JStr ''nobody'') (Text (JStr ''hello'')) NoOptions =
       (Inl (Some ''invalid wid''),
        [Sleep Settle (Num 2000),
         SendMessage (JStr ''nobody'') (Text (JStr ''hello'')) NoOptions,
         Log (AttemptFailed 1 3 ''invalid wid'')])"
proof -
  have t: "\<not> is_transient ''invalid wid''"
    by (simp add: is_transient_def startsWith_def)
  have f: "fst (attempt_send (refusing_client 0 1) (JStr ''nobody'') (Text (JStr ''hello''))
             NoOptions) = Inl ''invalid wid''"
    by (simp add: attempt_send_def refusing_client_def refusing_view_def)
  show ?thesis
    using retry_permanent_stops_at_once
            [of "refusing_client 0" "JStr ''nobody''" "Text (JStr ''hello'')" NoOptions
                "''invalid wid''", OF f t, THEN conjunct1] t
    by simp
qed

text \<open>
  C3, as stated: between any two consecutive items of a batch the scheduler waits
  \<open>MESSAGE_DELAY_MS\<close>. It does not after an item that is given up before the send:
  in this batch of two, with a delay of 5000 ms, the first item has no destination, and
  the whole run has no wait between messages.
\<close>

theorem no_wait_after_skipped_item:
  "post_send_batch quiet_world ready_module (Num 1000) (Num 5000)
       (batch_body [no_destination_item, text_item])
     = (Some \<lparr> successCount = 1, failureCount = 1 \<rparr>,
        [Respond \<lparr> status = 202, success = True, message = Accepted 2 (Num 5000) \<rparr>,
         Log (MissingGroupId 1 2),
         Sleep Settle (Num 2000),
         SendMessage (JStr ''1203630@g.us'') (Text (JStr ''hello'')) NoOptions,
         Log (TextMessageSent 2 2),
         Log (Progress 2 2 1 1),
         Log (BatchCompleted 1 1)])"
  by code_simp

text \<open>
  C3, amended: for an item \<open>i\<close> that passes validation and media resolution and is
  not the last one, the run from item \<open>i\<close> on is: the events of item \<open>i\<close>, of which
  none is a wait between messages, then the wait of \<open>MESSAGE_DELAY_MS\<close> and the progress
  log, then the run from item \<open>i + 1\<close> on, whether the send succeeded or failed. The run
  of the last item has no wait between messages.
\<close>

theorem throttle_follows_each_sent_item:
  "(i + 1 < length messages
      \<and> fst (prepare_message w i (length messages) (messages ! i)) = Inr p
    \<longrightarrow> (\<exists>pre st'. st' \<in> {succeeded st, failed st} \<and> filter is_throttle pre = []
           \<and> batch_loop w client D messages i st =
               (fst (batch_loop w client D messages (i + 1) st'),
                pre @ [Log (WaitingNext D), Sleep Throttle D,
                       Log (Progress (i + 1) (length messages)
                              (successCount st') (failureCount st'))]
                    @ snd (batch_loop w client D messages (i + 1) st'))))
   \<and> (i + 1 = length messages
      \<longrightarrow> filter is_throttle (snd (batch_loop w client D messages i st)) = [])"
proof (intro conjI impI)
  assume a: "i + 1 < length messages
      \<and> fst (prepare_message w i (length messages) (messages ! i)) = Inr p"
  then have lt: "i < length messages" by simp
  let ?n = "length messages"
  obtain g cap media where p: "p = (g, cap, media)" by (cases p)
  obtain st' evs where s: "st' \<in> {succeeded st, failed st}"
      "send_item (client i) D i ?n g cap media st = (st', evs @ after_send D i ?n st')"
      "filter is_throttle evs = []"
    using send_item_settles [of st "client i" D i ?n g cap media] by blast
  have q: "filter is_throttle (snd (prepare_message w i ?n (messages ! i))) = []"
    using prepare_message_quiet [of w i ?n "messages ! i"] by (simp add: quiet_def)
  have pm: "process_message w (client i) D i ?n (messages ! i) st =
              (st', (snd (prepare_message w i ?n (messages ! i)) @ evs)
                    @ [Log (WaitingNext D), Sleep Throttle D,
                       Log (Progress (i + 1) ?n (successCount st') (failureCount st'))])"
    using a p s(2) by (simp add: process_message_sent after_send_between)
  have "batch_loop w client D messages i st =
          (fst (batch_loop w client D messages (i + 1) st'),
           (snd (prepare_message w i ?n (messages ! i)) @ evs)
           @ [Log (WaitingNext D), Sleep Throttle D,
              Log (Progress (i + 1) ?n (successCount st') (failureCount st'))]
           @ snd (batch_loop w client D messages (i + 1) st'))"
    by (simp add: batch_loop_step [OF lt] pm)
  moreover have "filter is_throttle (snd (prepare_message w i ?n (messages ! i)) @ evs) = []"
    using q s(3) by simp
  ultimately show "\<exists>pre st'. st' \<in> {succeeded st, failed st} \<and> filter is_throttle pre = []
           \<and> batch_loop w client D messages i st =
               (fst (batch_loop w client D messages (i + 1) st'),
                pre @ [Log (WaitingNext D), Sleep Throttle D,
                       Log (Progress (i + 1) (length messages)
                              (successCount st') (failureCount st'))]
                    @ snd (batch_loop w client D messages (i + 1) st'))"
    using s(1) by blast
next
  assume last: "i + 1 = length messages"
  then have lt: "i < length messages" by simp
  have "filter is_throttle
          (snd (process_message w (client i) D i (length messages) (messages ! i) st)) = []"
    using last by (intro process_message_last) simp
  then show "filter is_throttle (snd (batch_loop w client D messages i st)) = []"
    using last by (simp add: batch_loop_step [OF lt] batch_loop_end)
qed

theorem throttle_witness:
  "(\<exists>pre st'. st' \<in> {succeeded \<lparr> successCount = 0, failureCount = 0 \<rparr>,
                       failed \<lparr> successCount = 0, failureCount = 0 \<rparr>}
       \<and> filter is_throttle pre = []
       \<and> batch_loop quiet_world ready_client (Num 5000) [text_item, text_item] 0
             \<lparr> successCount = 0, failureCount = 0 \<rparr> =
           (fst (batch_loop quiet_world ready_client (Num 5000) [text_item, text_item] 1 st'),
            pre @ [Log (WaitingNext (Num 5000)), Sleep Throttle (Num 5000),
                   Log (Progress 1 2 (successCount st') (failureCount st'))]
                @ snd (batch_loop quiet_world ready_client (Num 5000) [text_item, text_item] 1 st')))
   \<and> filter is_throttle
         (snd (batch_loop quiet_world ready_client (Num 5000) [text_item] 0
                 \<lparr> successCount = 0, failureCount = 0 \<rparr>)) = []"
proof -
  have p: "fst (prepare_message quiet_world 0 (length [text_item, text_item])
                  ([text_item, text_item] ! 0))
             = Inr (JStr ''1203630@g.us'', JStr ''hello'', None)"
    by code_simp
  show ?thesis
    using throttle_follows_each_sent_item
            [of 0 "[text_item, text_item]" quiet_world
                "(JStr ''1203630@g.us'', JStr ''hello'', None)"
                "\<lparr> successCount = 0, failureCount = 0 \<rparr>" ready_client "Num 5000"]
          throttle_follows_each_sent_item
            [of 0 "[text_item]" quiet_world
                "(JStr ''1203630@g.us'', JStr ''hello'', None)"
                "\<lparr> successCount = 0, failureCount = 0 \<rparr>" ready_client "Num 5000"]
          p
    by (simp add: numeral_2_eq_2)
qed

text \<open>
  C4, as stated: an item that fails validation is recorded as skipped, a category of the
  tally distinct from failed. The tally has two counters only, and such an item adds to
  \<open>failureCount\<close>: a batch of one item without destination and a batch of one item
  whose send is refused end with the same tally.
\<close>

theorem skipped_item_is_tallied_as_failed:
  "fst (post_send_batch quiet_world ready_module (Num 1000) (Num 5000)
          (batch_body [no_destination_item]))
     = Some \<lparr> successCount = 0, failureCount = 1 \<rparr>
   \<and> fst (post_send_batch quiet_world refusing_module (Num 1000) (Num 5000)
            (batch_body [text_item]))
     = Some \<lparr> successCount = 0, failureCount = 1 \<rparr>"
  by code_simp

text \<open>
  C4, amended: an item without destination, or an item without any of message, media
  content and markup whose destination can be written into the line of the warning,
  adds one to \<open>failureCount\<close> (the counter that also counts failed sends), is logged
  as missing its destination or its content, and the run goes on with the next item;
  nothing else is done for it.
\<close>

theorem invalid_item_counts_as_failed:
  assumes "i < length messages"
    and "\<not> nullish (messages ! i)"
    and "\<not> truthy (get_prop (messages ! i) ''groupId'')
         \<or> (\<not> truthy (get_prop (messages ! i) ''message'')
            \<and> \<not> truthy (get_prop (messages ! i) ''mediaContent'')
            \<and> \<not> truthy (get_prop (messages ! i) ''html'')
            \<and> \<not> to_string_throws (get_prop (messages ! i) ''groupId''))"
  shows "\<exists>l. (l = MissingGroupId (i + 1) (length messages)
               \<or> l = MissingContent (i + 1) (length messages))
           \<and> batch_loop w client D messages i st =
               (fst (batch_loop w client D messages (i + 1)
                       (st \<lparr> failureCount := failureCount st + 1 \<rparr>)),
                Log l # snd (batch_loop w client D messages (i + 1)
                               (st \<lparr> failureCount := failureCount st + 1 \<rparr>)))"
proof -
  let ?n = "length messages"
  have "\<exists>l. (l = MissingGroupId (i + 1) ?n \<or> l = MissingContent (i + 1) ?n)
          \<and> prepare_message w i ?n (messages ! i) = (Inl (Counted l), [])"
    using assms(2,3)
    by (cases "truthy (get_prop (messages ! i) ''groupId'')")
       (simp_all add: prepare_message_def Let_def)
  then obtain l where l: "l = MissingGroupId (i + 1) ?n \<or> l = MissingContent (i + 1) ?n"
      and prep: "prepare_message w i ?n (messages ! i) = (Inl (Counted l), [])"
    by blast
  have "process_message w (client i) D i ?n (messages ! i) st
          = (st \<lparr> failureCount := failureCount st + 1 \<rparr>, [Log l])"
    using process_message_given_up [of w i ?n "messages ! i" "Counted l" "client i" D st] prep
    by simp
  then have "batch_loop w client D messages i st =
               (fst (batch_loop w client D messages (i + 1)
                       (st \<lparr> failureCount := failureCount st + 1 \<rparr>)),
                Log l # snd (batch_loop w client D messages (i + 1)
                               (st \<lparr> failureCount := failureCount st + 1 \<rparr>)))"
    by (simp add: batch_loop_step [OF assms(1)])
  then show ?thesis
    using l by blast
qed

theorem invalid_item_witness:
  "\<exists>l. (l = MissingGroupId 1 2 \<or> l = MissingContent 1 2)
     \<and> batch_loop quiet_world ready_client (Num 5000) [no_destination_item, text_item] 0
           \<lparr> successCount = 0, failureCount = 0 \<rparr> =
         (fst (batch_loop quiet_world ready_client (Num 5000)
                 [no_destination_item, text_item] 1 \<lparr> successCount = 0, failureCount = 1 \<rparr>),
          Log l # snd (batch_loop quiet_world ready_client (Num 5000)
                         [no_destination_item, text_item] 1
                         \<lparr> successCount = 0, failureCount = 1 \<rparr>))"
proof -
  have a: "0 < length [no_destination_item, text_item]"
    by simp
  have b: "\<not> nullish ([no_destination_item, text_item] ! 0)"
    by (simp add: no_destination_item_def)
  have c: "\<not> truthy (get_prop ([no_destination_item, text_item] ! 0) ''groupId'')
         \<or> (\<not> truthy (get_prop ([no_destination_item, text_item] ! 0) ''message'')
            \<and> \<not> truthy (get_prop ([no_destination_item, text_item] ! 0) ''mediaContent'')
            \<and> \<not> truthy (get_prop ([no_destination_item, text_item] ! 0) ''html'')
            \<and> \<not> to_string_throws (get_prop ([no_destination_item, text_item] ! 0) ''groupId''))"
    by (simp add: no_destination_item_def)
  show ?thesis
    using invalid_item_counts_as_failed
            [of 0 "[no_destination_item, text_item]" quiet_world ready_client "Num 5000"
                "\<lparr> successCount = 0, failureCount = 0 \<rparr>", OF a b c]
    by (simp add: numeral_2_eq_2)
qed

text \<open>
  C5. A request whose \<open>messages\<close> is not an array, is the empty array, or is longer
  than \<open>MAX_BATCH_SIZE\<close> gets the response 400 and nothing else happens: the handler
  writes one error log and responds; it does not ask for the session, sends nothing,
  waits for nothing and returns no counters; the world and the session play no part.
\<close>

theorem invalid_batch_rejected:
  assumes "\<not> nullish body"
    and "(\<forall>messages. get_prop body ''messages'' \<noteq> JArr messages)
         \<or> get_prop body ''messages'' = JArr []
         \<or> (\<exists>messages. get_prop body ''messages'' = JArr messages
               \<and> js_gt (Num (int (length messages))) MAX_BATCH_SIZE)"
  shows "\<exists>l r. post_send_batch w m MAX_BATCH_SIZE MESSAGE_DELAY_MS body
                  = (None, [Log l, Respond r])
               \<and> status r = 400 \<and> \<not> success r"
  using assms
  by (cases "get_prop body ''messages''") (auto simp: post_send_batch_def)

theorem invalid_batch_witness:
  "post_send_batch quiet_world ready_module (Num 1000) (Num 5000) (batch_body [])
     = (None, [Log EmptyMessages,
               Respond \<lparr> status = 400, success = False, message = EmptyArray \<rparr>])
   \<and> post_send_batch quiet_world ready_module (Num 1) (Num 5000)
        (batch_body [text_item, text_item])
     = (None, [Log (BatchSizeExceeded 2),
               Respond \<lparr> status = 400, success = False, message = BatchTooLarge (Num 1) \<rparr>])
   \<and> post_send_batch quiet_world ready_module (Num 1000) (Num 5000)
        (JObj [(''messages'', JStr ''hello'')])
     = (None, [Log InvalidMessages,
               Respond \<lparr> status = 400, success = False, message = MustBeArray \<rparr>])"
proof -
  have n: "\<not> nullish (batch_body [])" "\<not> nullish (batch_body [text_item, text_item])"
      "\<not> nullish (JObj [(''messages'', JStr ''hello'')])"
    by (simp_all add: batch_body_def)
  have e: "(\<forall>messages. get_prop (batch_body []) ''messages'' \<noteq> JArr messages)
         \<or> get_prop (batch_body []) ''messages'' = JArr []
         \<or> (\<exists>messages. get_prop (batch_body []) ''messages'' = JArr messages
               \<and> js_gt (Num (int (length messages))) (Num 1000))"
    by (simp add: batch_body_def)
  have o: "(\<forall>messages. get_prop (batch_body [text_item, text_item]) ''messages'' \<noteq> JArr messages)
         \<or> get_prop (batch_body [text_item, text_item]) ''messages'' = JArr []
         \<or> (\<exists>messages. get_prop (batch_body [text_item, text_item]) ''messages'' = JArr messages
               \<and> js_gt (Num (int (length messages))) (Num 1))"
    by (simp add: batch_body_def)
  have s: "(\<forall>messages. get_prop (JObj [(''messages'', JStr ''hello'')]) ''messages''
                          \<noteq> JArr messages)
         \<or> get_prop (JObj [(''messages'', JStr ''hello'')]) ''messages'' = JArr []
         \<or> (\<exists>messages. get_prop (JObj [(''messages'', JStr ''hello'')]) ''messages''
                           = JArr messages
               \<and> js_gt (Num (int (length messages))) (Num 1000))"
    by simp
  show ?thesis
    using invalid_batch_rejected [OF n(1) e, of quiet_world ready_module "Num 5000"]
          invalid_batch_rejected [OF n(2) o, of quiet_world ready_module "Num 5000"]
          invalid_batch_rejected [OF n(3) s, of quiet_world ready_module "Num 5000"]
    by (simp add: post_send_batch_def batch_body_def)
qed



text \<open>
  C7 (the code departs from it). The router reads the session from the property
  \<open>whatsappClient\<close> of the module's exports, which keeps the value the variable had
  when the module was loaded: nothing. After \<open>setWhatsAppClient\<close> has stored a
  session, whatever it shows, the health endpoint still reports "initializing".
\<close>

theorem health_stays_initializing:
  "get_health (setWhatsAppClient c module_loaded)
     = \<lparr> status = 200, success = True, message = Health ''initializing'' \<rparr>"
  by (simp add: get_health_def setWhatsAppClient_def module_loaded_def)

text \<open>
  C8 (the code departs from it on the single-message endpoint). For the media content
  \<open>data:image/jpeg;base64,AAAA\<close> the batch endpoint builds the media of type
  image/jpeg with data AAAA; the single-message endpoint assigns the stripped payload
  to a constant, which throws, and answers 500 without sending.
\<close>

theorem data_uri_fails_on_single_send:
  "post_send quiet_world ready_module data_uri_request
     = [Log SingleMediaError,
        Respond \<lparr> status = 500, success = False, message = MediaProcessingFailed TypeError \<rparr>]
   \<and> base64_media ''data:image/jpeg;base64,AAAA'' = MessageMedia ''image/jpeg'' ''AAAA''
   \<and> base64_media ''AAAA'' = MessageMedia ''image/png'' ''AAAA''
   \<and> base64_media_single ''AAAA'' = Inr (MessageMedia ''image/png'' ''AAAA'')"
  by code_simp

text \<open>
  C9 (the code departs from it on the single-message endpoint). For a request with
  markup and a viewport of 400 by 300, the batch endpoint asks for the rendering of the
  markup at 400 by 300; the single-message endpoint passes the markup itself where the
  renderer expects an object holding it, and so asks for the rendering of
  \<open>undefined\<close> at 800 by 800.
\<close>

theorem markup_not_rendered_on_single_send:
  "post_send quiet_world ready_module markup_request
     = [Render \<lparr> htmlContent = JUndefined, width = JNum 800, height = JNum 800 \<rparr>,
        Log (RenderSaved ''images/0b7e.png''),
        Log (ConsoleLog ''images/0b7e.png'' ''0b7e.png''),
        FromFilePath ''./images/0b7e.png'',
        Log (HtmlConverted ''0b7e.png''),
        SendMessage (JStr ''1203630@g.us'') (Media (FileMedia ''./images/0b7e.png''))
          (Caption (JStr [])),
        Log SingleMediaSent,
        Respond \<lparr> status = 200, success = True, message = MessageSent (JStr ''1203630@g.us'') \<rparr>]
   \<and> prepare_message quiet_world 0 1 markup_request
     = (Inr (JStr ''1203630@g.us'', JStr [], Some (FileMedia ''./images/0b7e.png'')),
        [Render \<lparr> htmlContent = JStr ''<b>hello</b>'', width = JNum 400, height = JNum 300 \<rparr>,
         Log (RenderSaved ''images/0b7e.png''),
         FromFilePath ''./images/0b7e.png'',
         Log (HtmlConverted ''0b7e.png'')])"
  by code_simp

text \<open>
  C10. Take a media content that starts with \<open>data:\<close> and whose MIME type, the text
  between \<open>data:\<close> and the first semicolon, has a character that is not a letter,
  \<open>-\<close>, \<open>+\<close> or \<open>/\<close>. The pattern does not match it, and both endpoints build the
  media of type image/png whose data is the whole content, prefix included.
\<close>

theorem unmatched_data_uri_kept_whole:
  assumes "startsWith s ''data:''"
    and "\<exists>c \<in> set (takeWhile (\<lambda>c. c \<noteq> CHR '';'') (drop 5 s)). \<not> mime_class c"
  shows "js_match s data_uri_regex = None
         \<and> base64_media s = MessageMedia ''image/png'' s
         \<and> base64_media_single s = Inr (MessageMedia ''image/png'' s)"
  using data_uri_no_match [OF assms]
  by (simp add: base64_media_def base64_media_single_def Let_def)

theorem unmatched_data_uri_witness:
  "base64_media ''data:video/mp4;base64,AAAA''
     = MessageMedia ''image/png'' ''data:video/mp4;base64,AAAA''
   \<and> base64_media_single ''data:video/mp4;base64,AAAA''
     = Inr (MessageMedia ''image/png'' ''data:video/mp4;base64,AAAA'')"
proof -
  have a: "startsWith ''data:video/mp4;base64,AAAA'' ''data:''"
    by (simp add: startsWith_def)
  have "\<not> mime_class CHR ''4''"
    by (simp add: mime_class_def)
  then have b: "\<exists>c \<in> set (takeWhile (\<lambda>c. c \<noteq> CHR '';'') (drop 5 ''data:video/mp4;base64,AAAA'')).
                  \<not> mime_class c"
    by simp
  show ?thesis
    using unmatched_data_uri_kept_whole [OF a b] by simp
qed

end
